theory Spec2Isabelle
  imports
    Complex_Main
    "HOL-Library.Char_ord"
    "HOL-Library.List_Lexorder"
    "HOL-Library.Log_Nat"
    "HOL-Library.Sublist"
begin

section \<open>The salary dashboard of \<open>Aula4/chat.py\<close>\<close>

text \<open>
  The script loads a table of salaries into a dataframe \<open>df\<close>, restricts it by four
  multiselect filters to \<open>df_filtrado\<close>, and derives four metrics and four chart tables
  from \<open>df_filtrado\<close>. The dataframe operations are modelled on lists: a dataframe is
  the list of its rows in table order, a column (\<open>df['ano']\<close>) is the list of one field
  of every row, and a boolean mask is a list of booleans of the same length.

  Strings are byte strings in UTF-8, whose lexicographic order on bytes is the order of
  Python's \<open>str\<close> on code points. The columns hold no missing values.

  Salaries are whole numbers of dollars. A 64-bit float is the rational number it
  stands for, and a float result that pandas may report as \<open>NaN\<close> has type
  \<open>rat option\<close>, with \<open>None\<close> for \<open>NaN\<close>. Infinities and subnormal numbers do not
  arise from the salaries considered and are not modelled.
\<close>

subsection \<open>Rows and columns\<close>

record registro =
  ano :: int
  senioridade :: string
  contrato :: string
  tamanho_empresa :: string
  cargo :: string
  usd :: int
  remoto :: string
  residencia_iso3 :: string

type_synonym dataframe = "registro list"

text \<open>\<open>Series.unique()\<close>: the distinct values, in order of first appearance.\<close>

fun unique :: "'a list \<Rightarrow> 'a list" where
  "unique [] = []"
| "unique (x # xs) = x # unique (filter (\<lambda>y. y \<noteq> x) xs)"

text \<open>\<open>Series.isin(values)\<close>: the mask of the entries that occur in \<open>values\<close>.\<close>

definition isin :: "'a list \<Rightarrow> 'a list \<Rightarrow> bool list" where
  "isin col vals = map (\<lambda>v. v \<in> set vals) col"

text \<open>\<open>m1 & m2\<close> on masks: the conjunction, entry by entry.\<close>

definition mask_and :: "bool list \<Rightarrow> bool list \<Rightarrow> bool list" where
  "mask_and m1 m2 = map (\<lambda>(a, b). a \<and> b) (zip m1 m2)"

text \<open>\<open>df[mask]\<close>: the rows at which the mask is true, in table order.\<close>

definition getitem_mask :: "'a list \<Rightarrow> bool list \<Rightarrow> 'a list" where
  "getitem_mask df m = map fst (filter snd (zip df m))"

subsection \<open>Sidebar filters (lines 36 to 51)\<close>

text \<open>
  \<open>filtro_multiselect\<close> offers \<open>opcoes = sorted(df_col.unique())\<close> and preselects all
  of them (\<open>default=opcoes\<close>); the widget returns the list of the chosen options.
\<close>

definition opcoes :: "'a::linorder list \<Rightarrow> 'a list" where
  "opcoes df_col = sort (unique df_col)"

definition df_filtrado ::
  "dataframe \<Rightarrow> int list \<Rightarrow> string list \<Rightarrow> string list \<Rightarrow> string list \<Rightarrow> dataframe" where
  "df_filtrado df anos_selecionados senioridades_selecionadas contratos_selecionados
       tamanhos_selecionados =
     getitem_mask df
       (mask_and
         (mask_and
           (mask_and (isin (map ano df) anos_selecionados)
                     (isin (map senioridade df) senioridades_selecionadas))
           (isin (map contrato df) contratos_selecionados))
         (isin (map tamanho_empresa df) tamanhos_selecionados))"

text \<open>The filter with nothing touched in the sidebar: every widget returns its default.\<close>

definition df_filtrado_default :: "dataframe \<Rightarrow> dataframe" where
  "df_filtrado_default df =
     df_filtrado df (opcoes (map ano df)) (opcoes (map senioridade df))
       (opcoes (map contrato df)) (opcoes (map tamanho_empresa df))"

text \<open>The test a row passes: each of its four attributes is in its selection.\<close>

definition selecionado ::
  "int list \<Rightarrow> string list \<Rightarrow> string list \<Rightarrow> string list \<Rightarrow> registro \<Rightarrow> bool" where
  "selecionado anos sens cons tams r \<longleftrightarrow>
     ano r \<in> set anos \<and> senioridade r \<in> set sens \<and> contrato r \<in> set cons
       \<and> tamanho_empresa r \<in> set tams"

subsection \<open>Aggregations of a column\<close>

datatype erro = KeyError

text \<open>
  Rounding to the nearest 64-bit float, ties to the even significand: \<open>expoente q\<close> is
  the binary exponent of \<open>q\<close>, the spacing of the floats around \<open>q\<close> is
  \<open>2 powi (expoente q - 52)\<close>, and \<open>q\<close> is rounded to a multiple of that spacing.
\<close>

definition expoente :: "rat \<Rightarrow> int" where
  "expoente q =
     (let (p, d) = quotient_of \<bar>q\<bar>; e0 = bitlen p - bitlen d
      in if 2 powi e0 \<le> \<bar>q\<bar> then e0 else e0 - 1)"

definition arredonda_par :: "rat \<Rightarrow> int" where
  "arredonda_par m =
     (let n = \<lfloor>m\<rfloor>; r = m - of_int n
      in if r < 1 / 2 then n else if 1 / 2 < r then n + 1 else if even n then n else n + 1)"

definition f64 :: "rat \<Rightarrow> rat" where
  "f64 q =
     (if q = 0 then 0
      else let u = 2 powi (expoente q - 52)
           in sgn q * of_int (arredonda_par (\<bar>q\<bar> / u)) * u)"


definition mean :: "int list \<Rightarrow> rat option" where
  "mean xs =
     (if xs = [] then None else Some (f64 (of_int (sum_list xs) / of_nat (length xs))))"

text \<open>\<open>Series.max()\<close>: the largest entry; \<open>NaN\<close> on an empty series.\<close>

definition max_serie :: "int list \<Rightarrow> int option" where
  "max_serie xs = (case xs of [] \<Rightarrow> None | x # ys \<Rightarrow> Some (fold max ys x))"

text \<open>
  \<open>Series.mode()\<close>: the values with the highest number of occurrences, as a new series
  in sorted order with the labels \<open>0, 1, ...\<close>.
\<close>

definition mais_frequente :: "'a list \<Rightarrow> 'a \<Rightarrow> bool" where
  "mais_frequente xs v \<longleftrightarrow> list_all (\<lambda>w. count_list xs w \<le> count_list xs v) xs"

definition mode :: "'a::linorder list \<Rightarrow> 'a list" where
  "mode xs = sort (filter (mais_frequente xs) (unique xs))"

text \<open>\<open>s[0]\<close> on a series with the labels \<open>0, 1, ...\<close>: a \<open>KeyError\<close> when it is empty.\<close>

definition getitem0 :: "'a list \<Rightarrow> erro + 'a" where
  "getitem0 s = (case s of [] \<Rightarrow> Inl KeyError | x # _ \<Rightarrow> Inr x)"




text \<open>
  \<open>Series.value_counts()\<close>: one entry per distinct value with its number of
  occurrences, in descending order of that number.
\<close>

definition value_counts :: "'a list \<Rightarrow> ('a \<times> nat) list" where
  "value_counts xs = sort_key (\<lambda>p. - int (snd p)) (map (\<lambda>v. (v, count_list xs v)) (unique xs))"

subsection \<open>Main metrics (lines 56 to 64)\<close>

record metricas =
  salario_medio :: "rat option"
  salario_maximo :: "int option"
  total_registros :: nat
  cargo_mais_frequente :: string

text \<open>The placeholder of line 64, an en dash (U+2013) in UTF-8.\<close>

definition sentinela :: string where
  "sentinela = [CHR 0xE2, CHR 0x80, CHR 0x93]"

definition kpis :: "dataframe \<Rightarrow> erro + metricas" where
  "kpis df_f =
     (if df_f \<noteq> [] then
        (case getitem0 (mode (map cargo df_f)) of
           Inl e \<Rightarrow> Inl e
         | Inr c \<Rightarrow>
             Inr \<lparr>salario_medio = mean (map usd df_f),
                  salario_maximo = max_serie (map usd df_f),
                  total_registros = length df_f,
                  cargo_mais_frequente = c\<rparr>)
      else
        Inr \<lparr>salario_medio = Some 0, salario_maximo = Some 0, total_registros = 0,
             cargo_mais_frequente = sentinela\<rparr>)"

subsection \<open>Chart tables (lines 78 to 152)\<close>

text \<open>
  A panel either draws a chart from a table (\<open>st.plotly_chart\<close>) or shows a message
  (\<open>st.info\<close>).
\<close>

datatype 'a painel = Info string | Grafico 'a


definition msg_remoto :: string where
  "msg_remoto = ''Nenhum dado dispon'' @ [CHR 0xC3, CHR 0xAD] @ ''vel para o gr''
     @ [CHR 0xC3, CHR 0xA1] @ ''fico de tipos de trabalho.''"





text \<open>Chart 3, lines 117 to 119.\<close>

definition remoto_contagem :: "dataframe \<Rightarrow> (string \<times> nat) list" where
  "remoto_contagem df_f = value_counts (map remoto df_f)"

definition painel_remoto :: "dataframe \<Rightarrow> (string \<times> nat) list painel" where
  "painel_remoto df_f = (if df_f \<noteq> [] then Grafico (remoto_contagem df_f) else Info msg_remoto)"




subsection \<open>Notions of the specification\<close>



text \<open>A row with a given job title and salary, the other attributes fixed.\<close>

definition linha :: "string \<Rightarrow> int \<Rightarrow> string \<Rightarrow> registro" where
  "linha c s p =
     \<lparr>ano = 2024, senioridade = ''senior'', contrato = ''integral'', tamanho_empresa = ''media'',
      cargo = c, usd = s, remoto = ''remoto'', residencia_iso3 = p\<rparr>"

subsection \<open>Sample tables\<close>

definition tabela_exemplo :: dataframe where
  "tabela_exemplo =
     [linha ''Data Scientist'' 50000 ''BRA'', linha ''Data Engineer'' 60000 ''USA'',
      linha ''Data Scientist'' 70000 ''USA'']"






section \<open>Properties of the filter\<close>

lemma set_unique [simp]: "set (unique xs) = set xs"
  by (induction xs rule: unique.induct) auto

lemma distinct_unique [simp]: "distinct (unique xs)"
  by (induction xs rule: unique.induct) auto

lemma set_opcoes [simp]: "set (opcoes xs) = set xs"
  by (simp add: opcoes_def)

lemma getitem_mask_map: "getitem_mask xs (map P xs) = filter P xs"
  by (induction xs) (simp_all add: getitem_mask_def)

lemma mask_and_map: "mask_and (map P xs) (map Q xs) = map (\<lambda>x. P x \<and> Q x) xs"
  by (induction xs) (simp_all add: mask_and_def)

lemma isin_map: "isin (map f xs) vals = map (\<lambda>x. f x \<in> set vals) xs"
  by (simp add: isin_def)

lemma df_filtrado_filter:
  "df_filtrado df anos sens cons tams = filter (selecionado anos sens cons tams) df"
proof -
  have "(\<lambda>r. ((ano r \<in> set anos \<and> senioridade r \<in> set sens) \<and> contrato r \<in> set cons)
               \<and> tamanho_empresa r \<in> set tams) = selecionado anos sens cons tams"
    by (auto simp: selecionado_def fun_eq_iff)
  then show ?thesis
    by (simp add: df_filtrado_def isin_map mask_and_map getitem_mask_map)
qed

text \<open>
  C1: the filtered table is the table restricted, in table order and with multiplicity,
  to the rows whose year, seniority, contract type and company size are each a member of
  the corresponding selection; the four tests are joined by conjunction.
\<close>

lemma df_filtrado_full:
  assumes "set (map ano df) \<subseteq> set anos" "set (map senioridade df) \<subseteq> set sens"
    "set (map contrato df) \<subseteq> set cons" "set (map tamanho_empresa df) \<subseteq> set tams"
  shows "df_filtrado df anos sens cons tams = df"
proof -
  have "\<forall>r\<in>set df. selecionado anos sens cons tams r"
    using assms by (auto simp: selecionado_def)
  then show ?thesis
    by (simp add: df_filtrado_filter)
qed

text \<open>
  C1: the filtered table is the table restricted, in table order and with multiplicity,
  to the rows whose year, seniority, contract type and company size are each a member of
  the corresponding selection; the four tests are joined by conjunction.
\<close>

theorem C1_filter_conjunctive_membership:
  "df_filtrado df anos sens cons tams =
     filter (\<lambda>r. ano r \<in> set anos \<and> senioridade r \<in> set sens \<and> contrato r \<in> set cons
                  \<and> tamanho_empresa r \<in> set tams) df"
proof -
  have "selecionado anos sens cons tams =
      (\<lambda>r. ano r \<in> set anos \<and> senioridade r \<in> set sens \<and> contrato r \<in> set cons
            \<and> tamanho_empresa r \<in> set tams)"
    by (simp add: selecionado_def fun_eq_iff)
  then show ?thesis
    by (simp add: df_filtrado_filter)
qed

text \<open>
  C2: a selection that holds, for each of the four attributes, exactly the distinct values
  of that column leaves the table unchanged; so does the default selection of the
  sidebar, \<open>sorted(df_col.unique())\<close> for each column.
\<close>

theorem C2_full_selection_identity:
  assumes "set anos = set (map ano df)"
    and "set sens = set (map senioridade df)"
    and "set cons = set (map contrato df)"
    and "set tams = set (map tamanho_empresa df)"
  shows "df_filtrado df anos sens cons tams = df \<and> df_filtrado_default df = df"
proof
  show "df_filtrado df anos sens cons tams = df"
    using assms by (intro df_filtrado_full) simp_all
  show "df_filtrado_default df = df"
    unfolding df_filtrado_default_def by (intro df_filtrado_full) simp_all
qed

theorem C2_witness:
  "set [2024] = set (map ano tabela_exemplo)
   \<and> set [''senior''] = set (map senioridade tabela_exemplo)
   \<and> set [''integral''] = set (map contrato tabela_exemplo)
   \<and> set [''media''] = set (map tamanho_empresa tabela_exemplo)
   \<and> df_filtrado tabela_exemplo [2024] [''senior''] [''integral''] [''media''] = tabela_exemplo
   \<and> df_filtrado_default tabela_exemplo = tabela_exemplo"
proof -
  have h1: "set [2024] = set (map ano tabela_exemplo)"
    by (simp add: tabela_exemplo_def linha_def)
  have h2: "set [''senior''] = set (map senioridade tabela_exemplo)"
    by (simp add: tabela_exemplo_def linha_def)
  have h3: "set [''integral''] = set (map contrato tabela_exemplo)"
    by (simp add: tabela_exemplo_def linha_def)
  have h4: "set [''media''] = set (map tamanho_empresa tabela_exemplo)"
    by (simp add: tabela_exemplo_def linha_def)
  show ?thesis
    using C2_full_selection_identity [OF h1 h2 h3 h4] h1 h2 h3 h4 by blast
qed

text \<open>
  C3: for every table and every selection, the filtered table is a subsequence of the
  table: each of its rows is a row of the table, unchanged and in table order, and no row
  is added.
\<close>

theorem C3_filtered_is_subtable:
  "subseq (df_filtrado df anos sens cons tams) df
   \<and> set (df_filtrado df anos sens cons tams) \<subseteq> set df"
  by (simp add: df_filtrado_filter)

text \<open>
  C10: filtering the filtered table again with the same selection changes nothing.
\<close>

theorem C10_filter_idempotent:
  "df_filtrado (df_filtrado df anos sens cons tams) anos sens cons tams
     = df_filtrado df anos sens cons tams"
  by (simp add: df_filtrado_filter)

section \<open>Properties of rounding\<close>





section \<open>Properties of the metrics\<close>

lemma kpis_Nil:
  "kpis [] = Inr \<lparr>salario_medio = Some 0, salario_maximo = Some 0, total_registros = 0,
                  cargo_mais_frequente = sentinela\<rparr>"
  by (simp add: kpis_def)

text \<open>
  C4: when the selection of any one of the four attributes is empty, the filtered table is
  empty, and the metrics on it are computed without an exception: mean salary 0, highest
  salary 0, no rows, and the placeholder as the most frequent job title.
\<close>

theorem C4_empty_selection:
  assumes "anos = [] \<or> sens = [] \<or> cons = [] \<or> tams = []"
  shows "df_filtrado df anos sens cons tams = []
    \<and> kpis (df_filtrado df anos sens cons tams) =
        Inr \<lparr>salario_medio = Some 0, salario_maximo = Some 0, total_registros = 0,
             cargo_mais_frequente = sentinela\<rparr>"
proof -
  have "\<forall>r\<in>set df. \<not> selecionado anos sens cons tams r"
    using assms by (auto simp: selecionado_def)
  then have "df_filtrado df anos sens cons tams = []"
    by (simp add: df_filtrado_filter)
  then show ?thesis
    by (simp add: kpis_Nil)
qed

theorem C4_witness:
  "([2024] = [] \<or> ([]::string list) = [] \<or> [''integral''] = [] \<or> [''media''] = [])
   \<and> df_filtrado tabela_exemplo [2024] [] [''integral''] [''media''] = []
   \<and> kpis (df_filtrado tabela_exemplo [2024] [] [''integral''] [''media'']) =
        Inr \<lparr>salario_medio = Some 0, salario_maximo = Some 0, total_registros = 0,
             cargo_mais_frequente = sentinela\<rparr>"
proof -
  have h: "[2024::int] = [] \<or> ([]::string list) = [] \<or> [''integral''] = [] \<or> [''media''] = []"
    by simp
  show ?thesis
    using C4_empty_selection [OF h, of tabela_exemplo] h by blast
qed


lemma ex_mais_frequente:
  assumes "xs \<noteq> []"
  shows "\<exists>v\<in>set xs. mais_frequente xs v"
proof -
  let ?C = "count_list xs ` set xs"
  have fin: "finite ?C" and ne: "?C \<noteq> {}"
    using assms by simp_all
  from Max_in [OF fin ne] obtain v where v: "v \<in> set xs" "count_list xs v = Max ?C"
    by auto
  have "\<forall>w\<in>set xs. count_list xs w \<le> count_list xs v"
    using v(2) fin by simp
  with v(1) show ?thesis
    by (auto simp: mais_frequente_def list_all_iff)
qed

lemma set_mode: "set (mode xs) = {v \<in> set xs. mais_frequente xs v}"
  by (auto simp: mode_def)

lemma sorted_mode: "sorted (mode xs)"
  by (simp add: mode_def)

lemma mode_not_Nil: "xs \<noteq> [] \<Longrightarrow> mode xs \<noteq> []"
  using ex_mais_frequente [of xs] set_mode [of xs] by fastforce

lemma getitem0_mode:
  assumes "xs \<noteq> []"
  shows "\<exists>t. getitem0 (mode xs) = Inr t \<and> t \<in> set xs \<and> mais_frequente xs t
           \<and> (\<forall>c\<in>set xs. mais_frequente xs c \<longrightarrow> t \<le> c)"
proof -
  from mode_not_Nil [OF assms] obtain t ts where m: "mode xs = t # ts"
    by (cases "mode xs") auto
  have "t \<in> set (mode xs)" using m by simp
  then have t: "t \<in> set xs" "mais_frequente xs t" by (simp_all add: set_mode)
  have "\<forall>c\<in>set (mode xs). t \<le> c"
    using sorted_mode [of xs] m by auto
  then have "\<forall>c\<in>set xs. mais_frequente xs c \<longrightarrow> t \<le> c"
    by (simp add: set_mode)
  with t m show ?thesis by (simp add: getitem0_def)
qed


lemma kpis_total: "\<exists>m. kpis df = Inr m \<and> total_registros m = length df"
proof (cases "df = []")
  case True
  then show ?thesis by (simp add: kpis_def)
next
  case False
  then have "map cargo df \<noteq> []" by simp
  from getitem0_mode [OF this] obtain t where "getitem0 (mode (map cargo df)) = Inr t"
    by blast
  with False show ?thesis by (simp add: kpis_def)
qed

text \<open>
  Three rows with the salaries 50000, 60000 and 70000: the mean is 60000 and the highest
  salary 70000.
\<close>

lemma kpis_tabela_exemplo:
  "kpis tabela_exemplo =
     Inr \<lparr>salario_medio = Some 60000, salario_maximo = Some 70000, total_registros = 3,
          cargo_mais_frequente = ''Data Scientist''\<rparr>"
  by code_simp




section \<open>Properties of the chart tables\<close>


















lemma sum_list_insort_key:
  "sum_list (map g (insort_key f x xs)) = g x + sum_list (map g xs)"
  for g :: "'a \<Rightarrow> nat"
  by (induction xs) simp_all

lemma sum_list_sort_key:
  "sum_list (map g (sort_key f xs)) = sum_list (map g xs)"
  for g :: "'a \<Rightarrow> nat"
  by (induction xs) (simp_all add: sum_list_insort_key)

lemma sum_count_unique: "sum_list (map (count_list xs) (unique xs)) = length xs"
proof -
  have "sum_list (map (count_list xs) (unique xs)) = sum (count_list xs) (set (unique xs))"
    by (rule sum_list_distinct_conv_sum_set) simp
  also have "\<dots> = length xs"
    by (simp add: sum_count_set)
  finally show ?thesis .
qed

lemma sum_value_counts: "sum_list (map snd (value_counts xs)) = length xs"
  by (simp add: value_counts_def sum_list_sort_key comp_def sum_count_unique)

lemma fst_value_counts:
  "distinct (map fst (value_counts xs)) \<and> set (map fst (value_counts xs)) = set xs"
proof -
  let ?ps = "map (\<lambda>v. (v, count_list xs v)) (unique xs)"
  have d: "distinct (map fst ?ps)" and s: "set (map fst ?ps) = set xs"
    by (simp_all add: comp_def)
  have "distinct (map fst (value_counts xs))"
    using d by (simp add: value_counts_def distinct_map del: map_map)
  moreover have "set (map fst (value_counts xs)) = set xs"
    using s by (simp add: value_counts_def del: map_map)
  ultimately show ?thesis by blast
qed

text \<open>
  C8: for every filtered table, \<open>remoto_contagem\<close> has one entry per distinct value
  of the remote-work column, and its counts add up to the number of rows that the
  metrics report for the same table.
\<close>

text \<open>
  C8: for every filtered table, \<open>remoto_contagem\<close> has one entry per distinct value
  of the remote-work column, and its counts add up to the number of rows that the
  metrics report for the same table.
\<close>

theorem C8_counts_sum_to_total:
  "\<exists>m. kpis df = Inr m
     \<and> sum_list (map snd (remoto_contagem df)) = total_registros m
     \<and> distinct (map fst (remoto_contagem df))
     \<and> set (map fst (remoto_contagem df)) = remoto ` set df"
proof -
  from kpis_total [of df] obtain m where m: "kpis df = Inr m" "total_registros m = length df"
    by blast
  have "sum_list (map snd (remoto_contagem df)) = length df"
    by (simp add: remoto_contagem_def sum_value_counts)
  moreover have "distinct (map fst (remoto_contagem df))"
    unfolding remoto_contagem_def using fst_value_counts [of "map remoto df"] by blast
  moreover have "set (map fst (remoto_contagem df)) = remoto ` set df"
    unfolding remoto_contagem_def using fst_value_counts [of "map remoto df"] by simp
  ultimately show ?thesis using m by auto
qed






end
